theory Spec2Isabelle
  imports Complex_Main
begin

section \<open>Values, documents and exceptions\<close>

text \<open>
  The repository is a retrieval-augmented question-answering service (\<^verbatim>\<open>agents.py\<close>,
  \<^verbatim>\<open>ingest.py\<close>, \<^verbatim>\<open>api.py\<close>, \<^verbatim>\<open>config.py\<close>). Python strings are modelled as
  \<^typ>\<open>string\<close>; a \<^typ>\<open>char\<close> stands for a code point below 256, and the character
  classes of \<^verbatim>\<open>re\<close> and \<^verbatim>\<open>str\<close> are written out for that range. Metadata
  dictionaries are maps from keys to values; the values the code stores are strings and
  the integer chunk number.
\<close>

datatype pyval = Str string | IntVal int

record Document =
  page_content :: string
  metadata :: "string \<rightharpoonup> pyval"

text \<open>\<^verbatim>\<open>d.get(key, default)\<close>\<close>

definition dict_get :: "(string \<rightharpoonup> pyval) \<Rightarrow> string \<Rightarrow> pyval \<Rightarrow> pyval" where
  "dict_get d k dflt = (case d k of Some v \<Rightarrow> v | None \<Rightarrow> dflt)"

text \<open>
  Exceptions raised by the repository's own code (\<^verbatim>\<open>FileNotFoundError\<close>,
  \<^verbatim>\<open>ValueError\<close>), the interpreter's \<^verbatim>\<open>AttributeError\<close>, and \<open>LibraryError\<close> for any
  exception that comes out of a call into a third-party library, the file system or a
  remote service. \<open>str_exn\<close> is \<^verbatim>\<open>str(e)\<close>.
\<close>

datatype exn =
    FileNotFoundError string
  | ValueError string
  | AttributeError string
  | LibraryError string

fun str_exn :: "exn \<Rightarrow> string" where
  "str_exn (FileNotFoundError m) = m"
| "str_exn (ValueError m) = m"
| "str_exn (AttributeError m) = m"
| "str_exn (LibraryError m) = m"

datatype http_error = HTTPException nat string

section \<open>String helpers\<close>

definition newline :: char where
  "newline = CHR 0x0A"

text \<open>\<^verbatim>\<open>str.isspace\<close> and the class \<^verbatim>\<open>\s\<close> of \<^verbatim>\<open>re\<close> on code points below 256.\<close>

definition is_space :: "char \<Rightarrow> bool" where
  "is_space c =
     (let n = (of_char c :: nat)
      in (9 \<le> n \<and> n \<le> 13) \<or> (28 \<le> n \<and> n \<le> 32) \<or> n = 133 \<or> n = 160)"

text \<open>
  The class \<^verbatim>\<open>\w\<close>: alphanumeric (\<^verbatim>\<open>str.isalnum\<close>) or underscore, on code points
  below 256; \<open>is_word_hyphen\<close> is the set \<^verbatim>\<open>[\w-]\<close>.
\<close>

definition is_word :: "char \<Rightarrow> bool" where
  "is_word c =
     (let n = (of_char c :: nat)
      in (48 \<le> n \<and> n \<le> 57) \<or> (65 \<le> n \<and> n \<le> 90) \<or> n = 95 \<or> (97 \<le> n \<and> n \<le> 122)
         \<or> n = 170 \<or> n = 178 \<or> n = 179 \<or> n = 181 \<or> n = 185 \<or> n = 186
         \<or> (188 \<le> n \<and> n \<le> 190) \<or> (192 \<le> n \<and> n \<le> 214) \<or> (216 \<le> n \<and> n \<le> 246)
         \<or> (248 \<le> n \<and> n \<le> 255))"

definition is_word_hyphen :: "char \<Rightarrow> bool" where
  "is_word_hyphen c = (is_word c \<or> c = CHR ''-'')"

text \<open>The set \<^verbatim>\<open>[\d.]\<close>: a decimal digit or a dot.\<close>

definition is_digit_dot :: "char \<Rightarrow> bool" where
  "is_digit_dot c = (let n = (of_char c :: nat) in (48 \<le> n \<and> n \<le> 57) \<or> c = CHR ''.'')"

text \<open>The class \<^verbatim>\<open>.\<close> (without DOTALL): anything but a newline.\<close>

definition is_dot :: "char \<Rightarrow> bool" where
  "is_dot c = (c \<noteq> newline)"

text \<open>\<open>strip_prefix p s\<close>: the rest of \<open>s\<close> after the literal \<open>p\<close>, if \<open>s\<close> starts with it.\<close>

fun strip_prefix :: "string \<Rightarrow> string \<Rightarrow> string option" where
  "strip_prefix [] s = Some s"
| "strip_prefix (p # ps) [] = None"
| "strip_prefix (p # ps) (c # cs) = (if p = c then strip_prefix ps cs else None)"

text \<open>\<^verbatim>\<open>sub in s\<close> on strings.\<close>

fun contains :: "string \<Rightarrow> string \<Rightarrow> bool" where
  "contains sub [] = (sub = [])"
| "contains sub (c # cs) = (strip_prefix sub (c # cs) \<noteq> None \<or> contains sub cs)"

text \<open>\<^verbatim>\<open>s.endswith(suffix)\<close> and \<^verbatim>\<open>s.strip()\<close>.\<close>

definition endswith :: "string \<Rightarrow> string \<Rightarrow> bool" where
  "endswith s suffix = (strip_prefix (rev suffix) (rev s) \<noteq> None)"

definition strip :: "string \<Rightarrow> string" where
  "strip s = rev (dropWhile is_space (rev (dropWhile is_space s)))"

section \<open>Metadata extraction (\<^verbatim>\<open>DocumentIngestor._extract_metadata\<close>)\<close>

text \<open>
  The three patterns have the shape \<^verbatim>\<open>LABEL\s*(C+)\<close>. \<open>group1\<close> is the greedy group
  \<^verbatim>\<open>(C+)\<close> at the current position. \<open>match_spaces_group\<close> is \<^verbatim>\<open>\s*(C+)\<close> as the
  backtracking matcher runs it: \<^verbatim>\<open>\s*\<close> takes a white-space character and goes on, and
  gives it back when the rest cannot match. \<open>re_search\<close> is \<^verbatim>\<open>re.search\<close>: the match at
  the leftmost start position, and its group 1.
\<close>

definition group1 :: "(char \<Rightarrow> bool) \<Rightarrow> string \<Rightarrow> string option" where
  "group1 C s = (case takeWhile C s of [] \<Rightarrow> None | g # gs \<Rightarrow> Some (g # gs))"

fun match_spaces_group :: "(char \<Rightarrow> bool) \<Rightarrow> string \<Rightarrow> string option" where
  "match_spaces_group C [] = None"
| "match_spaces_group C (c # cs) =
     (if is_space c then
        (case match_spaces_group C cs of
           Some g \<Rightarrow> Some g
         | None \<Rightarrow> group1 C (c # cs))
      else group1 C (c # cs))"

definition match_here :: "string \<Rightarrow> (char \<Rightarrow> bool) \<Rightarrow> string \<Rightarrow> string option" where
  "match_here label C s =
     (case strip_prefix label s of
        None \<Rightarrow> None
      | Some rest \<Rightarrow> match_spaces_group C rest)"

fun re_search :: "string \<Rightarrow> (char \<Rightarrow> bool) \<Rightarrow> string \<Rightarrow> string option" where
  "re_search label C [] = match_here label C []"
| "re_search label C (c # cs) =
     (case match_here label C (c # cs) of
        Some g \<Rightarrow> Some g
      | None \<Rightarrow> re_search label C cs)"

text \<open>
  A \<^verbatim>\<open>pathlib.Path\<close>, by the two projections the code reads: \<^verbatim>\<open>str(file_path)\<close> and
  \<^verbatim>\<open>file_path.name\<close>.
\<close>

record Path =
  path_str :: string
  path_name :: string

definition doc_type_of :: "string \<Rightarrow> string" where
  "doc_type_of doc_id =
     (if contains ''SOP'' doc_id then ''Standard Operating Procedure''
      else if contains ''WI'' doc_id then ''Work Instruction''
      else if contains ''QA'' doc_id then ''Quality Assurance Document''
      else ''Document'')"

definition extract_metadata :: "string \<Rightarrow> Path \<Rightarrow> (string \<rightharpoonup> pyval)" where
  "extract_metadata content file_path =
     (let m0 = [''source'' \<mapsto> Str (path_str file_path),
                ''filename'' \<mapsto> Str (path_name file_path)];
          m1 = (case re_search ''Document ID:'' is_word_hyphen content of
                  Some g \<Rightarrow> m0(''document_id'' \<mapsto> Str g)
                | None \<Rightarrow> m0);
          m2 = (case re_search ''Title:'' is_dot content of
                  Some g \<Rightarrow> m1(''title'' \<mapsto> Str (strip g))
                | None \<Rightarrow> m1);
          m3 = (case re_search ''Version:'' is_digit_dot content of
                  Some g \<Rightarrow> m2(''version'' \<mapsto> Str g)
                | None \<Rightarrow> m2);
          doc_id = (case dict_get m3 ''document_id'' (Str []) of Str s \<Rightarrow> s | IntVal i \<Rightarrow> [])
      in m3(''doc_type'' \<mapsto> Str (doc_type_of doc_id)))"

section \<open>Source citations (\<^verbatim>\<open>BaseAgent._extract_sources\<close>)\<close>

record source =
  document_id :: pyval
  title :: pyval
  doc_type :: pyval
  filename :: pyval

definition source_of :: "Document \<Rightarrow> source" where
  "source_of doc =
     \<lparr> document_id = dict_get (metadata doc) ''document_id'' (Str ''Unknown''),
       title = dict_get (metadata doc) ''title'' (Str ''Unknown''),
       doc_type = dict_get (metadata doc) ''doc_type'' (Str ''Document''),
       filename = dict_get (metadata doc) ''filename'' (Str ''Unknown'') \<rparr>"

text \<open>The loop over \<open>docs\<close>, with the list \<open>sources\<close> and the set \<open>seen\<close> it updates.\<close>

fun extract_sources_loop :: "Document list \<Rightarrow> source list \<Rightarrow> pyval set \<Rightarrow> source list" where
  "extract_sources_loop [] sources seen = sources"
| "extract_sources_loop (doc # docs) sources seen =
     (let doc_id = dict_get (metadata doc) ''document_id'' (Str ''Unknown'')
      in if doc_id \<notin> seen
         then extract_sources_loop docs (sources @ [source_of doc]) (insert doc_id seen)
         else extract_sources_loop docs sources seen)"

definition extract_sources :: "Document list \<Rightarrow> source list" where
  "extract_sources docs = extract_sources_loop docs [] {}"

section \<open>More string helpers\<close>

text \<open>\<^verbatim>\<open>str(n)\<close> for a natural number, and for a metadata value inside an f-string.\<close>

definition digit_char :: "nat \<Rightarrow> char" where
  "digit_char d = ''0123456789'' ! d"

function str_nat :: "nat \<Rightarrow> string" where
  "str_nat n =
     (if n < 10 then [digit_char n]
      else str_nat (n div 10) @ [digit_char (n mod 10)])"
  by pat_completeness auto
termination
  by (relation "measure id") auto

definition str_int :: "int \<Rightarrow> string" where
  "str_int i = (if i < 0 then CHR ''-'' # str_nat (nat (- i)) else str_nat (nat i))"

fun str_pyval :: "pyval \<Rightarrow> string" where
  "str_pyval (Str s) = s"
| "str_pyval (IntVal i) = str_int i"

text \<open>\<^verbatim>\<open>sep.join(parts)\<close>\<close>

fun join :: "string \<Rightarrow> string list \<Rightarrow> string" where
  "join sep [] = []"
| "join sep [x] = x"
| "join sep (x # y # ys) = x @ sep @ join sep (y # ys)"

text \<open>\<^verbatim>\<open>str.lower\<close> on code points below 256.\<close>

definition lower_char :: "char \<Rightarrow> char" where
  "lower_char c =
     (let n = (of_char c :: nat)
      in if (65 \<le> n \<and> n \<le> 90) \<or> (192 \<le> n \<and> n \<le> 222 \<and> n \<noteq> 215)
         then char_of (n + 32) else c)"

definition lower :: "string \<Rightarrow> string" where
  "lower s = map lower_char s"

text \<open>
  POSIX paths. \<open>basename\<close> is the last component; \<open>splitext_ext\<close> is
  \<^verbatim>\<open>os.path.splitext(p)[1]\<close>: the part of the last component from its last dot on,
  empty when that component has no dot or only leading dots before it; \<open>path_join\<close> is
  \<^verbatim>\<open>os.path.join\<close> of two parts.
\<close>

definition basename :: "string \<Rightarrow> string" where
  "basename p = rev (takeWhile (\<lambda>c. c \<noteq> CHR ''/'') (rev p))"

definition splitext_ext :: "string \<Rightarrow> string" where
  "splitext_ext p =
     (let b = basename p;
          ext_rev = takeWhile (\<lambda>c. c \<noteq> CHR ''.'') (rev b);
          stem = take (length b - length ext_rev - 1) b
      in if length ext_rev < length b \<and> (\<exists>c \<in> set stem. c \<noteq> CHR ''.'')
         then CHR ''.'' # rev ext_rev else [])"

definition path_join :: "string \<Rightarrow> string \<Rightarrow> string" where
  "path_join a b =
     (if strip_prefix ''/'' b \<noteq> None then b
      else if a = [] \<or> endswith a ''/'' then a @ b
      else a @ ''/'' @ b)"

text \<open>
  \<^verbatim>\<open>pathlib.Path(p)\<close> on POSIX keeps a path in normal form: the root is \<^verbatim>\<open>//\<close> for
  exactly two leading slashes and \<^verbatim>\<open>/\<close> for one or for three and more, the parts are the
  components between slashes without the empty ones and without \<^verbatim>\<open>.\<close>, and a path
  without root and parts prints as \<^verbatim>\<open>.\<close>. \<open>pathlib_str\<close> is \<^verbatim>\<open>str(Path(p))\<close>,
  \<open>pathlib_name\<close> is \<^verbatim>\<open>Path(p).name\<close>.
\<close>

fun split_slash :: "string \<Rightarrow> string list" where
  "split_slash [] = [[]]"
| "split_slash (c # cs) =
     (if c = CHR ''/'' then [] # split_slash cs
      else (case split_slash cs of
              [] \<Rightarrow> [[c]]
            | x # xs \<Rightarrow> (c # x) # xs))"

definition pathlib_parts :: "string \<Rightarrow> string list" where
  "pathlib_parts p = filter (\<lambda>x. x \<noteq> [] \<and> x \<noteq> ''.'') (split_slash p)"

definition pathlib_root :: "string \<Rightarrow> string" where
  "pathlib_root p =
     (let n = length (takeWhile (\<lambda>c. c = CHR ''/'') p)
      in if n = 0 then [] else if n = 2 then ''//'' else ''/'')"

definition pathlib_str :: "string \<Rightarrow> string" where
  "pathlib_str p =
     (if pathlib_root p = [] \<and> pathlib_parts p = [] then ''.''
      else pathlib_root p @ join ''/'' (pathlib_parts p))"

definition pathlib_name :: "string \<Rightarrow> string" where
  "pathlib_name p = (if pathlib_parts p = [] then [] else last (pathlib_parts p))"

definition Path_of :: "string \<Rightarrow> Path" where
  "Path_of p = \<lparr> path_str = pathlib_str p, path_name = pathlib_name p \<rparr>"

section \<open>Settings (\<^verbatim>\<open>config.py\<close>)\<close>

definition SOP_DOCUMENTS_PATH :: string where
  "SOP_DOCUMENTS_PATH = ''Data/Documents''"

definition SOP_VECTORSTORE_PATH :: string where
  "SOP_VECTORSTORE_PATH = ''data/vectorstore/sop_faiss_index''"

definition SOP_CHUNK_SIZE :: nat where
  "SOP_CHUNK_SIZE = 800"

definition SOP_CHUNK_OVERLAP :: nat where
  "SOP_CHUNK_OVERLAP = 120"

definition SOP_TOP_K :: nat where
  "SOP_TOP_K = 4"

definition HC_DOCUMENTS_PATH :: string where
  "HC_DOCUMENTS_PATH = ''data/HR_Doc''"

definition HC_VECTORSTORE_PATH :: string where
  "HC_VECTORSTORE_PATH = ''data/vectorstore/hc_faiss_index''"

definition HC_UPLOAD_DIR :: string where
  "HC_UPLOAD_DIR = ''uploads/hc''"

definition HC_CHUNK_SIZE :: nat where
  "HC_CHUNK_SIZE = 800"

definition HC_CHUNK_OVERLAP :: nat where
  "HC_CHUNK_OVERLAP = 120"

definition HC_TOP_K :: nat where
  "HC_TOP_K = 4"

section \<open>The environment and the state\<close>

text \<open>
  The vector index, the embedding and chat services, the document loaders and the text
  splitter are third-party code. An index is identified by the chunks it was built from;
  how the library embeds, stores, reloads and searches it is a parameter (\<open>env\<close>), and
  every call that can raise there returns a sum. The program's own state is explicit:
  the regular files and the persisted index directories on disk, the two module-level
  agents of \<^verbatim>\<open>api.py\<close>, and the calls made to the outside, in order (\<open>trace\<close>).
  \<^verbatim>\<open>print\<close> is not modelled. Constructing the clients (chat model, embeddings, text
  splitter, chain) and creating directories make no call to the services and are taken to
  succeed. The files and index directories on disk are keyed by their paths in normal form.
\<close>

datatype FAISS = FAISS "Document list"

datatype message = SystemMessage string | HumanMessage string

datatype event =
    OpenWrite string
  | ReadText string
  | LoaderLoad string
  | FromDocuments nat
  | Rmtree string
  | SaveLocal string
  | LoadLocal string
  | SimilaritySearch string nat
  | LLMInvoke "message list"
  | ChainInvoke string

record env =
  getenv :: "string \<Rightarrow> string option"
  SOP_SYSTEM_PROMPT :: string
  llm_invoke :: "message list \<Rightarrow> exn + string"
  similarity_search_with_score :: "FAISS \<Rightarrow> string \<Rightarrow> nat \<Rightarrow> exn + (Document \<times> real) list"
  qa_chain_invoke :: "FAISS \<Rightarrow> nat \<Rightarrow> string \<Rightarrow> exn + string \<times> Document list"
  pdf_loader_load :: "(string \<rightharpoonup> string) \<Rightarrow> string \<Rightarrow> exn + Document list"
  docx_loader_load :: "(string \<rightharpoonup> string) \<Rightarrow> string \<Rightarrow> exn + Document list"
  read_text :: "(string \<rightharpoonup> string) \<Rightarrow> string \<Rightarrow> exn + string"
  glob :: "(string \<rightharpoonup> string) \<Rightarrow> string \<Rightarrow> string \<Rightarrow> string list"
  split_documents :: "nat \<Rightarrow> nat \<Rightarrow> string list \<Rightarrow> Document list \<Rightarrow> Document list"
  from_documents :: "Document list \<Rightarrow> exn + FAISS"
  save_local_fault :: "string \<Rightarrow> FAISS \<Rightarrow> exn option"
  load_local :: "(string \<rightharpoonup> FAISS) \<Rightarrow> string \<Rightarrow> exn + FAISS"
  open_write_fault :: "string \<Rightarrow> exn option"

text \<open>
  The fields of \<open>env\<close>, by the call each stands for:
  \<^item> \<open>getenv\<close>: \<^verbatim>\<open>os.getenv\<close>; \<open>SOP_SYSTEM_PROMPT\<close>: the prompt text of
    \<^verbatim>\<open>prompts.py\<close>, kept as a parameter;
  \<^item> \<open>llm_invoke\<close>: \<^verbatim>\<open>self.llm.invoke(messages)\<close>, the generated text;
  \<^item> \<open>similarity_search_with_score\<close>: the index's search for a question and \<open>k\<close>;
  \<^item> \<open>qa_chain_invoke\<close>: \<^verbatim>\<open>self.qa_chain.invoke\<close> for the chain over an index and \<open>k\<close>,
    giving \<^verbatim>\<open>result\<close> and \<^verbatim>\<open>source_documents\<close>;
  \<^item> \<open>pdf_loader_load\<close>, \<open>docx_loader_load\<close>: \<^verbatim>\<open>loader.load()\<close> of the two loaders, and
    \<open>read_text\<close>: \<^verbatim>\<open>open(path).read()\<close>, each on the files on disk;
  \<^item> \<open>glob\<close>: \<^verbatim>\<open>documents_path.glob(pattern)\<close>;
  \<^item> \<open>split_documents\<close>: the text splitter built from chunk size, overlap and separators;
  \<^item> \<open>from_documents\<close>: \<^verbatim>\<open>FAISS.from_documents\<close>, which embeds the chunks;
  \<^item> \<open>save_local_fault\<close>: whether \<^verbatim>\<open>save_local\<close> raises; when it does not, the index is
    persisted at the path in place of an index saved there before;
  \<^item> \<open>load_local\<close>: \<^verbatim>\<open>FAISS.load_local\<close> on the persisted indexes and a path;
  \<^item> \<open>open_write_fault\<close>: whether writing the uploaded file raises.
\<close>

text \<open>
  \<open>RetrievalQA\<close> is the chain \<^verbatim>\<open>create_qa_chain\<close> assembles: a retriever over an index
  with its \<open>k\<close>, the chat model and the prompt template.
\<close>

record RetrievalQA =
  chain_vectorstore :: FAISS
  chain_k :: nat

record SOPAgent =
  sop_vectorstore :: FAISS

record HCAgent =
  hc_vectorstore_path :: string
  hc_vectorstore :: "FAISS option"
  hc_retriever :: "RetrievalQA option"
  qa_chain :: "RetrievalQA option"

record state =
  files :: "string \<rightharpoonup> string"
  vectorstores :: "string \<rightharpoonup> FAISS"
  trace :: "event list"
  sop_agent :: "SOPAgent option"
  hc_agent :: "HCAgent option"

definition log :: "event \<Rightarrow> state \<Rightarrow> state" where
  "log ev s = s\<lparr> trace := trace s @ [ev] \<rparr>"

text \<open>\<^verbatim>\<open>Path(p).exists()\<close> and \<^verbatim>\<open>os.path.exists(p)\<close>\<close>

definition path_exists :: "state \<Rightarrow> string \<Rightarrow> bool" where
  "path_exists s p = (p \<in> dom (vectorstores s) \<or> p \<in> dom (files s))"


text \<open>Truth value of an optional string: \<^verbatim>\<open>None\<close> and the empty string are false.\<close>

definition truthy :: "string option \<Rightarrow> bool" where
  "truthy v = (case v of None \<Rightarrow> False | Some x \<Rightarrow> x \<noteq> [])"

section \<open>Ingestion (\<^verbatim>\<open>ingest.py\<close>)\<close>

record DocumentIngestor =
  agent_type :: string
  documents_path :: string
  ing_vectorstore_path :: string
  chunk_size :: nat
  chunk_overlap :: nat
  separators :: "string list"
  ing_vectorstore :: "FAISS option"

definition SOP_separators :: "string list" where
  "SOP_separators =
     [newline # replicate 80 (CHR ''='') @ [newline],
      newline # ''## '',
      newline # ''### '',
      [newline, newline],
      [newline],
      '' '',
      []]"

definition HC_separators :: "string list" where
  "HC_separators = [[newline, newline], [newline], ''. '', '' '', []]"

definition DocumentIngestor_init :: "string \<Rightarrow> DocumentIngestor" where
  "DocumentIngestor_init a_type =
     (if a_type = ''SOP'' then
        \<lparr> agent_type = a_type,
          documents_path = SOP_DOCUMENTS_PATH,
          ing_vectorstore_path = SOP_VECTORSTORE_PATH,
          chunk_size = SOP_CHUNK_SIZE,
          chunk_overlap = SOP_CHUNK_OVERLAP,
          separators = SOP_separators,
          ing_vectorstore = None \<rparr>
      else
        \<lparr> agent_type = a_type,
          documents_path = HC_DOCUMENTS_PATH,
          ing_vectorstore_path = HC_VECTORSTORE_PATH,
          chunk_size = HC_CHUNK_SIZE,
          chunk_overlap = HC_CHUNK_OVERLAP,
          separators = HC_separators,
          ing_vectorstore = None \<rparr>)"

definition load_document :: "env \<Rightarrow> string \<Rightarrow> state \<Rightarrow> (exn + Document list) \<times> state" where
  "load_document e file_path s =
     (let file_extension = lower (splitext_ext file_path)
      in if file_extension = ''.pdf'' then
           (pdf_loader_load e (files s) file_path, log (LoaderLoad file_path) s)
         else if file_extension = ''.docx'' \<or> file_extension = ''.doc'' then
           (docx_loader_load e (files s) file_path, log (LoaderLoad file_path) s)
         else if file_extension = ''.md'' then
           (case read_text e (files s) file_path of
              Inl x \<Rightarrow> (Inl x, log (ReadText file_path) s)
            | Inr content \<Rightarrow>
                (Inr [\<lparr> page_content = content,
                        metadata = extract_metadata content (Path_of file_path) \<rparr>],
                 log (ReadText file_path) s))
         else (Inl (ValueError (''Unsupported file type: '' @ file_extension)), s))"




definition chunk_documents :: "env \<Rightarrow> DocumentIngestor \<Rightarrow> Document list \<Rightarrow> Document list" where
  "chunk_documents e ing documents =
     (let chunks = split_documents e (chunk_size ing) (chunk_overlap ing) (separators ing) documents
      in map (\<lambda>(i, chunk). chunk\<lparr> metadata := (metadata chunk)(''chunk_id'' \<mapsto> IntVal (int i)) \<rparr>)
           (enumerate 0 chunks))"

definition create_vectorstore ::
  "env \<Rightarrow> DocumentIngestor \<Rightarrow> Document list \<Rightarrow> state
     \<Rightarrow> (exn + FAISS) \<times> DocumentIngestor \<times> state" where
  "create_vectorstore e ing chunks s =
     (case from_documents e chunks of
        Inl x \<Rightarrow> (Inl x, ing, log (FromDocuments (length chunks)) s)
      | Inr v \<Rightarrow>
          (Inr v, ing\<lparr> ing_vectorstore := Some v \<rparr>, log (FromDocuments (length chunks)) s))"

definition save_vectorstore ::
  "env \<Rightarrow> DocumentIngestor \<Rightarrow> string option \<Rightarrow> state \<Rightarrow> (exn + unit) \<times> state" where
  "save_vectorstore e ing save_path s =
     (let save_path = (case save_path of None \<Rightarrow> ing_vectorstore_path ing | Some p \<Rightarrow> p)
      in case ing_vectorstore ing of
           None \<Rightarrow> (Inr (), s)
         | Some v \<Rightarrow>
             (case save_local_fault e save_path v of
                Some x \<Rightarrow> (Inl x, log (SaveLocal save_path) s)
              | None \<Rightarrow>
                  (Inr (),
                   (log (SaveLocal save_path) s)
                     \<lparr> vectorstores := (vectorstores s)(save_path \<mapsto> v) \<rparr>)))"

definition DocumentIngestor_load_vectorstore ::
  "env \<Rightarrow> DocumentIngestor \<Rightarrow> string option \<Rightarrow> state
     \<Rightarrow> (exn + FAISS) \<times> DocumentIngestor \<times> state" where
  "DocumentIngestor_load_vectorstore e ing load_path s =
     (let load_path = (case load_path of None \<Rightarrow> ing_vectorstore_path ing | Some p \<Rightarrow> p)
      in case load_local e (vectorstores s) load_path of
           Inl x \<Rightarrow> (Inl x, ing, log (LoadLocal load_path) s)
         | Inr v \<Rightarrow> (Inr v, ing\<lparr> ing_vectorstore := Some v \<rparr>, log (LoadLocal load_path) s))"

definition process_document ::
  "env \<Rightarrow> DocumentIngestor \<Rightarrow> string \<Rightarrow> string option \<Rightarrow> state
     \<Rightarrow> (exn + nat) \<times> DocumentIngestor \<times> state" where
  "process_document e ing file_path save_path s =
     (case load_document e file_path s of
        (Inl x, s1) \<Rightarrow> (Inl x, ing, s1)
      | (Inr documents, s1) \<Rightarrow>
          (let chunks = chunk_documents e ing documents
           in case create_vectorstore e ing chunks s1 of
                (Inl x, ing2, s2) \<Rightarrow> (Inl x, ing2, s2)
              | (Inr v, ing2, s2) \<Rightarrow>
                  (let save_path =
                         (case save_path of None \<Rightarrow> ing_vectorstore_path ing2 | Some p \<Rightarrow> p)
                   in case save_vectorstore e ing2 (Some save_path) s2 of
                        (Inl x, s3) \<Rightarrow> (Inl x, ing2, s3)
                      | (Inr u, s3) \<Rightarrow> (Inr (length chunks), ing2, s3))))"


section \<open>Agents (\<^verbatim>\<open>agents.py\<close>)\<close>

text \<open>
  A query result is the dictionary with the keys \<^verbatim>\<open>answer\<close>, \<^verbatim>\<open>sources\<close> and
  \<^verbatim>\<open>chunks\<close>. The citations of the SOP agent are \<^typ>\<open>source\<close> records; those of the
  HC agent carry the chunk text as well.
\<close>

record 's query_result =
  answer :: string
  sources :: "'s list"
  chunks :: nat

record hc_source = source +
  content :: string

definition format_source :: "nat \<Rightarrow> Document \<Rightarrow> string" where
  "format_source i doc =
     newline # ''[Source '' @ str_nat i @ '': ''
       @ str_pyval (dict_get (metadata doc) ''document_id'' (Str ''Unknown'')) @ '']''
       @ newline # str_pyval (dict_get (metadata doc) ''title'' (Str ''Unknown''))
       @ newline # newline # page_content doc
       @ newline # newline # ''---''"

definition format_context :: "Document list \<Rightarrow> string" where
  "format_context docs =
     join [newline] (map (\<lambda>(i, doc). format_source i doc) (enumerate 1 docs))"

text \<open>\<^verbatim>\<open>SOP_RESPONSE_TEMPLATE.format(context=context, query=question)\<close>\<close>

definition SOP_RESPONSE_TEMPLATE_format :: "string \<Rightarrow> string \<Rightarrow> string" where
  "SOP_RESPONSE_TEMPLATE_format context query =
     ''Answer strictly following SOP-style rules.'' @ newline # newline # ''Context:''
       @ newline # context @ newline # newline # ''Question:''
       @ newline # query @ newline # newline # ''Answer:'' @ [newline]"

definition SOPAgent_load_vectorstore :: "env \<Rightarrow> state \<Rightarrow> (exn + FAISS) \<times> state" where
  "SOPAgent_load_vectorstore e s =
     (let vectorstore_path = pathlib_str SOP_VECTORSTORE_PATH
      in if \<not> path_exists s vectorstore_path then
           (Inl (FileNotFoundError
                  (''SOP vector store not found at '' @ vectorstore_path
                     @ newline # ''Please run: python ingest_sop.py'')), s)
         else (load_local e (vectorstores s) vectorstore_path,
               log (LoadLocal vectorstore_path) s))"

definition SOPAgent_init :: "env \<Rightarrow> state \<Rightarrow> (exn + SOPAgent) \<times> state" where
  "SOPAgent_init e s =
     (case SOPAgent_load_vectorstore e s of
        (Inl x, s1) \<Rightarrow> (Inl x, s1)
      | (Inr v, s1) \<Rightarrow> (Inr \<lparr> sop_vectorstore = v \<rparr>, s1))"

definition SOPAgent_generate_answer ::
  "env \<Rightarrow> string \<Rightarrow> string \<Rightarrow> state \<Rightarrow> (exn + string) \<times> state" where
  "SOPAgent_generate_answer e question context s =
     (let prompt = SOP_RESPONSE_TEMPLATE_format context question;
          messages = [SystemMessage (SOP_SYSTEM_PROMPT e), HumanMessage prompt]
      in (llm_invoke e messages, log (LLMInvoke messages) s))"

definition SOPAgent_query ::
  "env \<Rightarrow> SOPAgent \<Rightarrow> string \<Rightarrow> state \<Rightarrow> (exn + source query_result) \<times> state" where
  "SOPAgent_query e a question s =
     (case similarity_search_with_score e (sop_vectorstore a) question SOP_TOP_K of
        Inl x \<Rightarrow> (Inl x, log (SimilaritySearch question SOP_TOP_K) s)
      | Inr docs_with_scores \<Rightarrow>
          if docs_with_scores = [] then
            (Inr \<lparr> answer = ''No relevant SOP information found for: '' @ question,
                   sources = [], chunks = 0 \<rparr>,
             log (SimilaritySearch question SOP_TOP_K) s)
          else
            (let docs = map fst docs_with_scores;
                 context = format_context docs
             in case SOPAgent_generate_answer e question context
                       (log (SimilaritySearch question SOP_TOP_K) s) of
                  (Inl x, s2) \<Rightarrow> (Inl x, s2)
                | (Inr ans, s2) \<Rightarrow>
                    (Inr \<lparr> answer = ans, sources = extract_sources docs,
                           chunks = length docs \<rparr>, s2)))"

text \<open>\<^verbatim>\<open>HCAgent(vectorstore_path)\<close>: an empty or missing path means the configured one.\<close>

definition HCAgent_init :: "string option \<Rightarrow> HCAgent" where
  "HCAgent_init vectorstore_path =
     \<lparr> hc_vectorstore_path =
         (case vectorstore_path of
            None \<Rightarrow> HC_VECTORSTORE_PATH
          | Some p \<Rightarrow> if p = [] then HC_VECTORSTORE_PATH else p),
       hc_vectorstore = None,
       hc_retriever = None,
       qa_chain = None \<rparr>"

definition HCAgent_load_vectorstore ::
  "env \<Rightarrow> HCAgent \<Rightarrow> state \<Rightarrow> (exn + unit) \<times> HCAgent \<times> state" where
  "HCAgent_load_vectorstore e a s =
     (let vectorstore_path = pathlib_str (hc_vectorstore_path a)
      in if \<not> path_exists s vectorstore_path then
           (Inl (FileNotFoundError
                  (''HC vector store not found at '' @ vectorstore_path
                     @ newline # ''Please upload and process HR documents first'')), a, s)
         else
           (case load_local e (vectorstores s) vectorstore_path of
              Inl x \<Rightarrow> (Inl x, a, log (LoadLocal vectorstore_path) s)
            | Inr v \<Rightarrow>
                (Inr (),
                 a\<lparr> hc_vectorstore := Some v,
                    hc_retriever := Some \<lparr> chain_vectorstore = v, chain_k = HC_TOP_K \<rparr> \<rparr>,
                 log (LoadLocal vectorstore_path) s)))"

definition create_qa_chain :: "HCAgent \<Rightarrow> (exn + unit) \<times> HCAgent" where
  "create_qa_chain a =
     (case hc_retriever a of
        None \<Rightarrow>
          (Inl (AttributeError
                 (CHR 0x27 # ''HCAgent'' @ CHR 0x27 # '' object has no attribute ''
                    @ CHR 0x27 # ''retriever'' @ [CHR 0x27])), a)
      | Some r \<Rightarrow> (Inr (), a\<lparr> qa_chain := Some r \<rparr>))"

definition initialize :: "env \<Rightarrow> HCAgent \<Rightarrow> state \<Rightarrow> (exn + unit) \<times> HCAgent \<times> state" where
  "initialize e a s =
     (case HCAgent_load_vectorstore e a s of
        (Inl x, a1, s1) \<Rightarrow> (Inl x, a1, s1)
      | (Inr u, a1, s1) \<Rightarrow>
          (case create_qa_chain a1 of
             (Inl x, a2) \<Rightarrow> (Inl x, a2, s1)
           | (Inr u2, a2) \<Rightarrow> (Inr (), a2, s1)))"

definition hc_source_of :: "Document \<Rightarrow> hc_source" where
  "hc_source_of doc =
     \<lparr> document_id = dict_get (metadata doc) ''document_id'' (Str ''Unknown''),
       title = dict_get (metadata doc) ''title'' (Str ''Unknown''),
       doc_type = dict_get (metadata doc) ''doc_type'' (Str ''Document''),
       filename = dict_get (metadata doc) ''filename'' (Str ''Unknown''),
       content = page_content doc \<rparr>"

definition HCAgent_query ::
  "env \<Rightarrow> HCAgent \<Rightarrow> string \<Rightarrow> state \<Rightarrow> (exn + hc_source query_result) \<times> state" where
  "HCAgent_query e a question s =
     (case qa_chain a of
        None \<Rightarrow> (Inl (ValueError ''HC Agent not initialized. Call initialize() first.''), s)
      | Some chain \<Rightarrow>
          (case qa_chain_invoke e (chain_vectorstore chain) (chain_k chain) question of
             Inl x \<Rightarrow> (Inl x, log (ChainInvoke question) s)
           | Inr (result, source_documents) \<Rightarrow>
               (let srcs = map hc_source_of source_documents
                in (Inr \<lparr> answer = result, sources = srcs, chunks = length srcs \<rparr>,
                    log (ChainInvoke question) s))))"

section \<open>The HTTP endpoints (\<^verbatim>\<open>api.py\<close>)\<close>

record 's AnswerResponse =
  resp_answer :: string
  resp_sources :: "'s list option"
  resp_chunks :: "nat option"
  resp_agent :: string

record StatusResponse =
  status :: string
  status_message :: string
  chunks_created :: "nat option"

record UploadFile =
  upload_filename :: string
  upload_bytes :: string

definition startup_event :: "env \<Rightarrow> state \<Rightarrow> state" where
  "startup_event e s =
     (let s1 = (if path_exists s SOP_VECTORSTORE_PATH then
                  (case SOPAgent_init e s of
                     (Inl x, s') \<Rightarrow> s'
                   | (Inr a, s') \<Rightarrow> s'\<lparr> sop_agent := Some a \<rparr>)
                else s)
      in if path_exists s1 HC_VECTORSTORE_PATH then
           (case initialize e (HCAgent_init None) (s1\<lparr> hc_agent := Some (HCAgent_init None) \<rparr>) of
              (r, a, s') \<Rightarrow> s'\<lparr> hc_agent := Some a \<rparr>)
         else s1)"

definition ask_sop_question ::
  "env \<Rightarrow> string \<Rightarrow> state \<Rightarrow> (http_error + source AnswerResponse) \<times> state" where
  "ask_sop_question e question s =
     (case sop_agent s of
        None \<Rightarrow>
          (Inl (HTTPException 400
                 ''SOP Agent not initialized. Please run: python ingest_unified.py sop''), s)
      | Some a \<Rightarrow>
          (case SOPAgent_query e a question s of
             (Inl x, s') \<Rightarrow> (Inl (HTTPException 500 (str_exn x)), s')
           | (Inr result, s') \<Rightarrow>
               (Inr \<lparr> resp_answer = answer result,
                      resp_sources = Some (sources result),
                      resp_chunks = Some (chunks result),
                      resp_agent = ''SOP Assistant'' \<rparr>, s')))"

definition ask_hc_question ::
  "env \<Rightarrow> string \<Rightarrow> state \<Rightarrow> (http_error + hc_source AnswerResponse) \<times> state" where
  "ask_hc_question e question s =
     (case hc_agent s of
        None \<Rightarrow>
          (Inl (HTTPException 400
                 ''HC Agent not initialized. Please upload a document first.''), s)
      | Some a \<Rightarrow>
          (case HCAgent_query e a question s of
             (Inl x, s') \<Rightarrow> (Inl (HTTPException 500 (str_exn x)), s')
           | (Inr result, s') \<Rightarrow>
               (Inr \<lparr> resp_answer = answer result,
                      resp_sources = Some (sources result),
                      resp_chunks = Some (chunks result),
                      resp_agent = ''Human Capital Assistant'' \<rparr>, s')))"

text \<open>
  The body of the \<^verbatim>\<open>try\<close> block of \<^verbatim>\<open>upload_hc_document\<close>. The module-level
  \<^verbatim>\<open>hc_agent\<close> is bound to the new agent object before \<^verbatim>\<open>initialize\<close> runs on it, and
  \<^verbatim>\<open>initialize\<close> updates that object in place.
\<close>

definition upload_try :: "env \<Rightarrow> UploadFile \<Rightarrow> state \<Rightarrow> (exn + StatusResponse) \<times> state" where
  "upload_try e file s =
     (let file_path = path_join HC_UPLOAD_DIR (upload_filename file)
      in case open_write_fault e file_path of
           Some x \<Rightarrow> (Inl x, log (OpenWrite file_path) s)
         | None \<Rightarrow>
             (case process_document e (DocumentIngestor_init ''HC'') file_path
                     (Some HC_VECTORSTORE_PATH)
                     ((log (OpenWrite file_path) s)
                        \<lparr> files := (files s)(file_path \<mapsto> upload_bytes file) \<rparr>) of
                (Inl x, ing, s3) \<Rightarrow> (Inl x, s3)
              | (Inr n, ing, s3) \<Rightarrow>
                  (case initialize e (HCAgent_init None)
                          (s3\<lparr> hc_agent := Some (HCAgent_init None) \<rparr>) of
                     (Inl x, a, s4) \<Rightarrow> (Inl x, s4\<lparr> hc_agent := Some a \<rparr>)
                   | (Inr u, a, s4) \<Rightarrow>
                       (Inr \<lparr> status = ''success'',
                              status_message =
                                ''Document processed successfully. Created '' @ str_nat n
                                  @ '' chunks.'',
                              chunks_created = Some n \<rparr>,
                        s4\<lparr> hc_agent := Some a \<rparr>))))"

definition upload_hc_document ::
  "env \<Rightarrow> UploadFile \<Rightarrow> state \<Rightarrow> (http_error + StatusResponse) \<times> state" where
  "upload_hc_document e file s =
     (if \<not> (endswith (upload_filename file) ''.pdf''
            \<or> endswith (upload_filename file) ''.docx''
            \<or> endswith (upload_filename file) ''.doc'') then
        (Inl (HTTPException 400 ''Only PDF and DOCX files are supported''), s)
      else if \<not> truthy (getenv e ''AZURE_OPENAI_ENDPOINT'') then
        (Inl (HTTPException 400 ''Azure credentials not found. Please create a .env file.''), s)
      else
        (case upload_try e file s of
           (Inl x, s') \<Rightarrow> (Inl (HTTPException 500 (str_exn x)), s')
         | (Inr r, s') \<Rightarrow> (Inr r, s')))"

section \<open>Reference definitions and sample data\<close>

text \<open>
  The identifier a chunk is cited under, and de-duplication as the specification words
  it: keep an element, drop every later element with the same key. \<open>first_seen\<close> is what
  \<open>extract_sources\<close> is compared with; the code does not use it.
\<close>

definition doc_id_of :: "Document \<Rightarrow> pyval" where
  "doc_id_of doc = dict_get (metadata doc) ''document_id'' (Str ''Unknown'')"

fun first_seen :: "('a \<Rightarrow> 'k) \<Rightarrow> 'a list \<Rightarrow> 'a list" where
  "first_seen key [] = []"
| "first_seen key (x # xs) = x # first_seen key (filter (\<lambda>y. key y \<noteq> key x) xs)"

text \<open>The new events of a run: what \<open>s'\<close> has logged beyond \<open>s\<close>.\<close>

definition new_events :: "state \<Rightarrow> state \<Rightarrow> event list" where
  "new_events s s' = drop (length (trace s)) (trace s')"





definition one_document :: "(string \<rightharpoonup> string) \<Rightarrow> string \<Rightarrow> exn + Document list" where
  "one_document fs p =
     (case fs p of
        None \<Rightarrow> Inl (LibraryError ''no such file'')
      | Some c \<Rightarrow> Inr [\<lparr> page_content = c, metadata = [''source'' \<mapsto> Str p] \<rparr>])"

definition env0 :: env where
  "env0 =
     \<lparr> getenv = (\<lambda>k. if k = ''AZURE_OPENAI_ENDPOINT'' then Some ''https://example.invalid''
                     else None),
       SOP_SYSTEM_PROMPT = ''You are a pharmaceutical SOP execution assistant.'',
       llm_invoke = (\<lambda>ms. Inr ''generated answer''),
       similarity_search_with_score =
         (\<lambda>v q k. case v of FAISS ds \<Rightarrow> Inr (map (\<lambda>d. (d, 0)) (take k ds))),
       qa_chain_invoke = (\<lambda>v k q. case v of FAISS ds \<Rightarrow> Inr (''generated answer'', take k ds)),
       pdf_loader_load = one_document,
       docx_loader_load = one_document,
       read_text =
         (\<lambda>fs p. case fs p of None \<Rightarrow> Inl (LibraryError ''no such file'') | Some c \<Rightarrow> Inr c),
       glob = (\<lambda>fs d pat. if pat = ''*.md'' then [''Data/Documents/sop_042.md''] else []),
       split_documents = (\<lambda>size overlap seps docs. docs),
       from_documents = (\<lambda>chunks. Inr (FAISS chunks)),
       save_local_fault = (\<lambda>p v. None),
       load_local =
         (\<lambda>vs p. case vs p of
                   None \<Rightarrow> Inl (LibraryError ''RuntimeError: could not open index.faiss'')
                 | Some v \<Rightarrow> Inr v),
       open_write_fault = (\<lambda>p. None) \<rparr>"

text \<open>The same environment, except that reloading a persisted index fails.\<close>

definition env_load_fails :: env where
  "env_load_fails = env0\<lparr> load_local := (\<lambda>vs p. Inl (LibraryError ''index file is corrupt'')) \<rparr>"

definition state0 :: state where
  "state0 = \<lparr> files = Map.empty, vectorstores = Map.empty, trace = [],
              sop_agent = None, hc_agent = None \<rparr>"

definition doc_A :: Document where
  "doc_A = \<lparr> page_content = ''Notice period is 30 days.'',
             metadata = [''document_id'' \<mapsto> Str ''HR-001'', ''title'' \<mapsto> Str ''Exit''] \<rparr>"

definition doc_B :: Document where
  "doc_B = \<lparr> page_content = ''Annual leave is 12 days.'',
             metadata = [''document_id'' \<mapsto> Str ''HR-002'', ''title'' \<mapsto> Str ''Leave''] \<rparr>"

definition doc_A2 :: Document where
  "doc_A2 = \<lparr> page_content = ''Exit interviews are mandatory.'',
              metadata = [''document_id'' \<mapsto> Str ''HR-001'', ''title'' \<mapsto> Str ''Exit''] \<rparr>"

definition doc_named_unknown :: Document where
  "doc_named_unknown =
     \<lparr> page_content = ''Scope'',
       metadata = [''document_id'' \<mapsto> Str ''Unknown'', ''title'' \<mapsto> Str ''Draft''] \<rparr>"

definition doc_unlabelled_1 :: Document where
  "doc_unlabelled_1 = \<lparr> page_content = ''Page one'', metadata = [''title'' \<mapsto> Str ''Handbook''] \<rparr>"

definition doc_unlabelled_2 :: Document where
  "doc_unlabelled_2 = \<lparr> page_content = ''Page two'', metadata = [''title'' \<mapsto> Str ''Circular''] \<rparr>"

definition ready_hc_agent :: "Document list \<Rightarrow> HCAgent" where
  "ready_hc_agent ds =
     \<lparr> hc_vectorstore_path = HC_VECTORSTORE_PATH,
       hc_vectorstore = Some (FAISS ds),
       hc_retriever = Some \<lparr> chain_vectorstore = FAISS ds, chain_k = HC_TOP_K \<rparr>,
       qa_chain = Some \<lparr> chain_vectorstore = FAISS ds, chain_k = HC_TOP_K \<rparr> \<rparr>"

definition ready_state :: state where
  "ready_state =
     state0\<lparr> vectorstores := [HC_VECTORSTORE_PATH \<mapsto> FAISS [doc_A]],
             hc_agent := Some (ready_hc_agent [doc_A]) \<rparr>"

definition policy_pdf :: UploadFile where
  "policy_pdf =
     \<lparr> upload_filename = ''policy.pdf'', upload_bytes = ''Annual leave is 12 days.'' \<rparr>"

definition notes_txt :: UploadFile where
  "notes_txt = \<lparr> upload_filename = ''notes.txt'', upload_bytes = ''remember the milk'' \<rparr>"


section \<open>Strings: what the helpers compute\<close>

lemma strip_prefix_Some_iff: "strip_prefix p s = Some r \<longleftrightarrow> s = p @ r"
  by (induction p s rule: strip_prefix.induct) auto

lemma strip_prefix_None_iff: "strip_prefix p s = None \<longleftrightarrow> (\<forall>r. s \<noteq> p @ r)"
  using strip_prefix_Some_iff [of p s] by (cases "strip_prefix p s") auto

text \<open>\<open>contains\<close> is the substring relation, \<open>endswith\<close> the suffix relation.\<close>

lemma contains_iff: "contains sub s \<longleftrightarrow> (\<exists>pre post. s = pre @ sub @ post)"
proof (induction s)
  case Nil
  then show ?case by auto
next
  case (Cons c cs)
  have "(\<exists>pre post. c # cs = pre @ sub @ post) \<longleftrightarrow>
        (\<exists>post. c # cs = sub @ post) \<or> (\<exists>pre post. cs = pre @ sub @ post)"
  proof
    assume "\<exists>pre post. c # cs = pre @ sub @ post"
    then obtain pre post where eq: "c # cs = pre @ sub @ post" by blast
    show "(\<exists>post. c # cs = sub @ post) \<or> (\<exists>pre post. cs = pre @ sub @ post)"
    proof (cases pre)
      case Nil
      with eq show ?thesis by auto
    next
      case (Cons p ps)
      with eq have "cs = ps @ sub @ post" by simp
      then show ?thesis by blast
    qed
  next
    assume "(\<exists>post. c # cs = sub @ post) \<or> (\<exists>pre post. cs = pre @ sub @ post)"
    then show "\<exists>pre post. c # cs = pre @ sub @ post"
    proof
      assume "\<exists>post. c # cs = sub @ post"
      then obtain post where "c # cs = [] @ sub @ post" by auto
      then show ?thesis by blast
    next
      assume "\<exists>pre post. cs = pre @ sub @ post"
      then obtain pre post where "c # cs = (c # pre) @ sub @ post" by auto
      then show ?thesis by blast
    qed
  qed
  moreover have "strip_prefix sub (c # cs) \<noteq> None \<longleftrightarrow> (\<exists>post. c # cs = sub @ post)"
    by (simp add: strip_prefix_None_iff)
  ultimately show ?case using Cons.IH by simp
qed

lemma endswith_iff: "endswith s suffix \<longleftrightarrow> (\<exists>pre. s = pre @ suffix)"
proof -
  have "endswith s suffix \<longleftrightarrow> (\<exists>r. rev s = rev suffix @ r)"
    by (simp add: endswith_def strip_prefix_None_iff)
  also have "\<dots> \<longleftrightarrow> (\<exists>pre. s = pre @ suffix)"
  proof
    assume "\<exists>r. rev s = rev suffix @ r"
    then obtain r where "rev s = rev suffix @ r" by blast
    then have "rev (rev s) = rev (rev suffix @ r)" by simp
    then have "s = rev r @ suffix" by simp
    then show "\<exists>pre. s = pre @ suffix" by blast
  next
    assume "\<exists>pre. s = pre @ suffix"
    then obtain pre where "s = pre @ suffix" by blast
    then have "rev s = rev suffix @ rev pre" by simp
    then show "\<exists>r. rev s = rev suffix @ r" by blast
  qed
  finally show ?thesis .
qed

section \<open>Metadata extraction\<close>



lemma extract_metadata_title:
  "extract_metadata body fp ''title'' =
     map_option (\<lambda>g. Str (strip g)) (re_search ''Title:'' is_dot body)"
  by (simp add: extract_metadata_def Let_def split: option.splits)













text \<open>
  A label followed by blanks only still matches: the white space gives one blank back to
  the group, and the trimmed title is the empty string.
\<close>

lemma title_of_blank_line:
  "extract_metadata (''Title:  '' @ [newline]) fp ''title'' = Some (Str [])"
  by (simp add: extract_metadata_title match_here_def group1_def is_space_def is_dot_def
        strip_def newline_def)






section \<open>Queries on an agent that is not ready\<close>

text \<open>
  C7. An HC agent whose chain has not been built (\<^verbatim>\<open>initialize\<close> not run, or failed)
  answers every question with the error \<^verbatim>\<open>HC Agent not initialized\<close>, and leaves the state
  as it was. At the endpoints, a question for a domain whose agent was never created is
  refused with status 400, and a question for an HC agent that exists but is not
  initialized is refused with status 500 carrying the same message. No such call returns
  a result.
\<close>

theorem query_not_ready_is_error:
  "HCAgent_query e (a\<lparr> qa_chain := None \<rparr>) q s =
     (Inl (ValueError ''HC Agent not initialized. Call initialize() first.''), s)
   \<and> ask_hc_question e q (s\<lparr> hc_agent := Some (a\<lparr> qa_chain := None \<rparr>) \<rparr>) =
     (Inl (HTTPException 500 ''HC Agent not initialized. Call initialize() first.''),
      s\<lparr> hc_agent := Some (a\<lparr> qa_chain := None \<rparr>) \<rparr>)
   \<and> ask_hc_question e q (s\<lparr> hc_agent := None \<rparr>) =
     (Inl (HTTPException 400 ''HC Agent not initialized. Please upload a document first.''),
      s\<lparr> hc_agent := None \<rparr>)
   \<and> ask_sop_question e q (s\<lparr> sop_agent := None \<rparr>) =
     (Inl (HTTPException 400
            ''SOP Agent not initialized. Please run: python ingest_unified.py sop''),
      s\<lparr> sop_agent := None \<rparr>)"
  by (simp add: HCAgent_query_def ask_hc_question_def ask_sop_question_def)

section \<open>Uploads with an unsupported extension\<close>

text \<open>
  C9. An upload whose file name ends in none of \<^verbatim>\<open>.pdf\<close>, \<^verbatim>\<open>.docx\<close>, \<^verbatim>\<open>.doc\<close> is
  refused with status 400 and the state is returned as it was: no file is written, no
  loader, embedding or index call is made, the persisted indexes and both agents are
  untouched.
\<close>

theorem upload_rejects_unsupported_extension:
  "\<not> endswith (upload_filename file) ''.pdf'' \<Longrightarrow>
   \<not> endswith (upload_filename file) ''.docx'' \<Longrightarrow>
   \<not> endswith (upload_filename file) ''.doc'' \<Longrightarrow>
   upload_hc_document e file s =
     (Inl (HTTPException 400 ''Only PDF and DOCX files are supported''), s)"
  by (simp add: upload_hc_document_def)

theorem upload_rejects_unsupported_extension_witness:
  "\<not> endswith (upload_filename notes_txt) ''.pdf''
   \<and> \<not> endswith (upload_filename notes_txt) ''.docx''
   \<and> \<not> endswith (upload_filename notes_txt) ''.doc''
   \<and> upload_hc_document env0 notes_txt ready_state =
       (Inl (HTTPException 400 ''Only PDF and DOCX files are supported''), ready_state)"
proof -
  have h1: "\<not> endswith (upload_filename notes_txt) ''.pdf''"
    by (simp add: notes_txt_def endswith_def)
  have h2: "\<not> endswith (upload_filename notes_txt) ''.docx''"
    by (simp add: notes_txt_def endswith_def)
  have h3: "\<not> endswith (upload_filename notes_txt) ''.doc''"
    by (simp add: notes_txt_def endswith_def)
  show ?thesis
    using h1 h2 h3 upload_rejects_unsupported_extension [OF h1 h2 h3, of env0 ready_state]
    by simp
qed

section \<open>Source citations\<close>

text \<open>
  The loop of \<open>extract_sources\<close> started with any accumulator and any set of identifiers
  already seen: it appends the citations of the first occurrences among the chunks whose
  identifier is new.
\<close>

lemma extract_sources_loop_first_seen:
  "extract_sources_loop docs acc seen =
     acc @ map source_of (first_seen doc_id_of (filter (\<lambda>d. doc_id_of d \<notin> seen) docs))"
proof (induction docs arbitrary: acc seen)
  case Nil
  then show ?case by simp
next
  case (Cons d ds)
  have eq: "filter (\<lambda>y. doc_id_of y \<noteq> doc_id_of d) (filter (\<lambda>d. doc_id_of d \<notin> seen) ds)
          = filter (\<lambda>x. doc_id_of x \<notin> insert (doc_id_of d) seen) ds"
    by (auto intro: filter_cong)
  show ?case
  proof (cases "doc_id_of d \<in> seen")
    case True
    then show ?thesis using Cons.IH [of acc seen] by (simp add: doc_id_of_def Let_def)
  next
    case False
    then show ?thesis
      using Cons.IH [of "acc @ [source_of d]" "insert (doc_id_of d) seen"] eq
      by (simp add: doc_id_of_def Let_def)
  qed
qed

lemma extract_sources_first_seen:
  "extract_sources docs = map source_of (first_seen doc_id_of docs)"
  by (simp add: extract_sources_def extract_sources_loop_first_seen)

lemma document_id_source_of: "document_id (source_of d) = doc_id_of d"
  by (simp add: source_of_def doc_id_of_def)

lemma set_first_seen: "set (first_seen key xs) \<subseteq> set xs"
  by (induction key xs rule: first_seen.induct) auto

lemma keys_first_seen: "key ` set (first_seen key xs) = key ` set xs"
  by (induction key xs rule: first_seen.induct) auto

lemma distinct_first_seen: "distinct (map key (first_seen key xs))"
proof (induction key xs rule: first_seen.induct)
  case (1 key)
  then show ?case by simp
next
  case (2 key x xs)
  have "key x \<notin> key ` set (first_seen key (filter (\<lambda>y. key y \<noteq> key x) xs))"
    using set_first_seen [of key "filter (\<lambda>y. key y \<noteq> key x) xs"] by auto
  with 2 show ?case by simp
qed

lemma find_filter_implies:
  "(\<And>x. P x \<Longrightarrow> Q x) \<Longrightarrow> find P (filter Q xs) = find P xs"
  by (induction xs) auto

text \<open>Per key, \<open>first_seen\<close> keeps exactly the first element that carries it.\<close>

lemma filter_first_seen:
  "filter (\<lambda>d. key d = k) (first_seen key xs) =
     (case find (\<lambda>d. key d = k) xs of None \<Rightarrow> [] | Some d \<Rightarrow> [d])"
proof (induction key xs rule: first_seen.induct)
  case (1 key)
  then show ?case by simp
next
  case (2 key x xs)
  show ?case
  proof (cases "key x = k")
    case True
    have "find (\<lambda>d. key d = k) (filter (\<lambda>y. key y \<noteq> key x) xs) = None"
      using True by (simp add: find_None_iff)
    with True 2 show ?thesis by simp
  next
    case False
    have "find (\<lambda>d. key d = k) (filter (\<lambda>y. key y \<noteq> key x) xs) = find (\<lambda>d. key d = k) xs"
      using False by (intro find_filter_implies) auto
    with False 2 show ?thesis by simp
  qed
qed

lemma first_seen_idem: "first_seen key (first_seen key xs) = first_seen key xs"
proof (induction key xs rule: first_seen.induct)
  case (1 key)
  then show ?case by simp
next
  case (2 key x xs)
  have "filter (\<lambda>y. key y \<noteq> key x) (first_seen key (filter (\<lambda>y. key y \<noteq> key x) xs))
        = first_seen key (filter (\<lambda>y. key y \<noteq> key x) xs)"
    using set_first_seen [of key "filter (\<lambda>y. key y \<noteq> key x) xs"]
    by (intro filter_True) auto
  with 2 show ?case by simp
qed

lemma sources_for_identifier:
  "find (\<lambda>d. doc_id_of d = k) docs = Some d \<Longrightarrow>
   filter (\<lambda>c. document_id c = k) (extract_sources docs) = [source_of d]"
proof -
  assume f: "find (\<lambda>d. doc_id_of d = k) docs = Some d"
  have "filter (\<lambda>c. document_id c = k) (extract_sources docs)
        = map source_of (filter (\<lambda>d. doc_id_of d = k) (first_seen doc_id_of docs))"
    by (simp add: extract_sources_first_seen filter_map comp_def document_id_source_of)
  also have "\<dots> = [source_of d]"
    by (simp add: filter_first_seen f)
  finally show ?thesis .
qed

section \<open>What a query returns\<close>

lemma SOPAgent_query_result:
  "fst (SOPAgent_query e a q s) = Inr r \<Longrightarrow>
   \<exists>dws. similarity_search_with_score e (sop_vectorstore a) q SOP_TOP_K = Inr dws
         \<and> sources r = extract_sources (map fst dws) \<and> chunks r = length dws"
  by (auto simp: SOPAgent_query_def SOPAgent_generate_answer_def Let_def extract_sources_def
           split: sum.splits if_splits)

lemma HCAgent_query_result:
  "fst (HCAgent_query e a q s) = Inr r \<Longrightarrow>
   \<exists>chain result docs. qa_chain a = Some chain
         \<and> qa_chain_invoke e (chain_vectorstore chain) (chain_k chain) q = Inr (result, docs)
         \<and> answer r = result \<and> sources r = map hc_source_of docs \<and> chunks r = length docs"
  by (auto simp: HCAgent_query_def Let_def split: option.splits sum.splits)

text \<open>
  C2, amended. The citation list built by \<open>extract_sources\<close>, which is what the SOP agent
  returns with an answer, holds one citation per identifier: that of the first chunk with
  the identifier, in the order in which identifiers are first seen (chunks from documents
  A, B, A give the citations of A and B), and de-duplicating the chunks beforehand changes
  nothing. The HC agent does not de-duplicate: its query returns one citation per chunk
  the chain retrieved, in retrieval order, each with that chunk's text.
\<close>

theorem sources_deduplicated_by_sop_agent_only:
  "extract_sources docs = map source_of (first_seen doc_id_of docs)
   \<and> distinct (map document_id (extract_sources docs))
   \<and> set (map document_id (extract_sources docs)) = doc_id_of ` set docs
   \<and> (find (\<lambda>d. doc_id_of d = k) docs = Some d \<longrightarrow>
        filter (\<lambda>c. document_id c = k) (extract_sources docs) = [source_of d])
   \<and> (doc_id_of a = doc_id_of a' \<and> doc_id_of a \<noteq> doc_id_of b \<longrightarrow>
        extract_sources [a, b, a'] = [source_of a, source_of b])
   \<and> extract_sources (first_seen doc_id_of docs) = extract_sources docs
   \<and> (fst (SOPAgent_query e ag q s) = Inr r \<longrightarrow>
        (\<exists>dws. similarity_search_with_score e (sop_vectorstore ag) q SOP_TOP_K = Inr dws
               \<and> sources r = extract_sources (map fst dws)))
   \<and> (fst (HCAgent_query e hc q s) = Inr r' \<longrightarrow>
        (\<exists>chain result rdocs.
            qa_chain hc = Some chain
          \<and> qa_chain_invoke e (chain_vectorstore chain) (chain_k chain) q = Inr (result, rdocs)
          \<and> sources r' = map hc_source_of rdocs))"
proof (intro conjI impI)
  show "extract_sources docs = map source_of (first_seen doc_id_of docs)"
    by (rule extract_sources_first_seen)
  have ids: "map document_id (extract_sources docs) = map doc_id_of (first_seen doc_id_of docs)"
    by (simp add: extract_sources_first_seen comp_def document_id_source_of)
  show "distinct (map document_id (extract_sources docs))"
    unfolding ids by (rule distinct_first_seen)
  show "set (map document_id (extract_sources docs)) = doc_id_of ` set docs"
    unfolding ids by (simp add: keys_first_seen)
  show "extract_sources (first_seen doc_id_of docs) = extract_sources docs"
    by (simp add: extract_sources_first_seen first_seen_idem)
next
  assume "find (\<lambda>d. doc_id_of d = k) docs = Some d"
  then show "filter (\<lambda>c. document_id c = k) (extract_sources docs) = [source_of d]"
    by (rule sources_for_identifier)
next
  assume "doc_id_of a = doc_id_of a' \<and> doc_id_of a \<noteq> doc_id_of b"
  then show "extract_sources [a, b, a'] = [source_of a, source_of b]"
    by (auto simp: extract_sources_first_seen)
next
  assume "fst (SOPAgent_query e ag q s) = Inr r"
  then show "\<exists>dws. similarity_search_with_score e (sop_vectorstore ag) q SOP_TOP_K = Inr dws
               \<and> sources r = extract_sources (map fst dws)"
    using SOPAgent_query_result by blast
next
  assume "fst (HCAgent_query e hc q s) = Inr r'"
  then show "\<exists>chain result rdocs.
            qa_chain hc = Some chain
          \<and> qa_chain_invoke e (chain_vectorstore chain) (chain_k chain) q = Inr (result, rdocs)
          \<and> sources r' = map hc_source_of rdocs"
    using HCAgent_query_result by blast
qed

theorem sources_deduplicated_by_sop_agent_only_witness:
  "find (\<lambda>d. doc_id_of d = Str ''HR-001'') [doc_A, doc_B, doc_A2] = Some doc_A
   \<and> doc_id_of doc_A = doc_id_of doc_A2 \<and> doc_id_of doc_A \<noteq> doc_id_of doc_B
   \<and> extract_sources [doc_A, doc_B, doc_A2] = [source_of doc_A, source_of doc_B]
   \<and> filter (\<lambda>c. document_id c = Str ''HR-001'') (extract_sources [doc_A, doc_B, doc_A2])
       = [source_of doc_A]"
proof -
  have h1: "find (\<lambda>d. doc_id_of d = Str ''HR-001'') [doc_A, doc_B, doc_A2] = Some doc_A"
    by (simp add: doc_id_of_def dict_get_def doc_A_def)
  have h2: "doc_id_of doc_A = doc_id_of doc_A2 \<and> doc_id_of doc_A \<noteq> doc_id_of doc_B"
    by (simp add: doc_id_of_def dict_get_def doc_A_def doc_A2_def doc_B_def)
  note t = sources_deduplicated_by_sop_agent_only
             [of "[doc_A, doc_B, doc_A2]" "Str ''HR-001''" doc_A doc_A doc_A2 doc_B]
  have c4: "filter (\<lambda>c. document_id c = Str ''HR-001'') (extract_sources [doc_A, doc_B, doc_A2])
              = [source_of doc_A]"
    using t [THEN conjunct2, THEN conjunct2, THEN conjunct2, THEN conjunct1] h1 by (rule mp)
  have c5: "extract_sources [doc_A, doc_B, doc_A2] = [source_of doc_A, source_of doc_B]"
    using t [THEN conjunct2, THEN conjunct2, THEN conjunct2, THEN conjunct2, THEN conjunct1] h2
    by (rule mp)
  from h1 h2 c4 c5 show ?thesis by (intro conjI) (elim conjE, assumption)+
qed

text \<open>
  C2 as stated fails for the HC agent: three retrieved chunks, the first and the third
  from the same document, give three citations.
\<close>

theorem hc_sources_not_deduplicated:
  "fst (HCAgent_query env0 (ready_hc_agent [doc_A, doc_B, doc_A2]) ''How long is the notice?''
         state0) =
     Inr \<lparr> answer = ''generated answer'',
           sources =
             [\<lparr> document_id = Str ''HR-001'', title = Str ''Exit'', doc_type = Str ''Document'',
                filename = Str ''Unknown'', content = ''Notice period is 30 days.'' \<rparr>,
              \<lparr> document_id = Str ''HR-002'', title = Str ''Leave'', doc_type = Str ''Document'',
                filename = Str ''Unknown'', content = ''Annual leave is 12 days.'' \<rparr>,
              \<lparr> document_id = Str ''HR-001'', title = Str ''Exit'', doc_type = Str ''Document'',
                filename = Str ''Unknown'', content = ''Exit interviews are mandatory.'' \<rparr>],
           chunks = 3 \<rparr>"
  by (simp add: HCAgent_query_def ready_hc_agent_def env0_def hc_source_of_def dict_get_def
        doc_A_def doc_B_def doc_A2_def HC_TOP_K_def)

text \<open>
  C10, amended. A chunk without an identifier is cited under \<^verbatim>\<open>Unknown\<close>. All chunks
  whose identifier is missing or is the string \<^verbatim>\<open>Unknown\<close> collapse into one citation,
  which carries the title, type and file name of the first chunk whose identifier is
  missing or is \<^verbatim>\<open>Unknown\<close>; when no chunk is named \<^verbatim>\<open>Unknown\<close> outright, that is the
  first chunk without an identifier.
\<close>

theorem unknown_chunks_collapse:
  "(metadata d ''document_id'' = None \<longrightarrow> document_id (source_of d) = Str ''Unknown'')
   \<and> (find (\<lambda>d. metadata d ''document_id'' = None
                \<or> metadata d ''document_id'' = Some (Str ''Unknown'')) docs = Some d0 \<longrightarrow>
        filter (\<lambda>c. document_id c = Str ''Unknown'') (extract_sources docs) = [source_of d0])
   \<and> (list_all (\<lambda>d. metadata d ''document_id'' \<noteq> Some (Str ''Unknown'')) docs
        \<and> find (\<lambda>d. metadata d ''document_id'' = None) docs = Some d1 \<longrightarrow>
        filter (\<lambda>c. document_id c = Str ''Unknown'') (extract_sources docs) = [source_of d1])"
proof (intro conjI impI)
  assume "metadata d ''document_id'' = None"
  then show "document_id (source_of d) = Str ''Unknown''"
    by (simp add: source_of_def dict_get_def)
next
  have key: "(\<lambda>d. metadata d ''document_id'' = None
                \<or> metadata d ''document_id'' = Some (Str ''Unknown''))
           = (\<lambda>d. doc_id_of d = Str ''Unknown'')"
  proof (rule ext)
    fix d
    show "(metadata d ''document_id'' = None
            \<or> metadata d ''document_id'' = Some (Str ''Unknown''))
          = (doc_id_of d = Str ''Unknown'')"
      by (cases "metadata d ''document_id''") (simp_all add: doc_id_of_def dict_get_def)
  qed
  {
    assume "find (\<lambda>d. metadata d ''document_id'' = None
                \<or> metadata d ''document_id'' = Some (Str ''Unknown'')) docs = Some d0"
    then have "find (\<lambda>d. doc_id_of d = Str ''Unknown'') docs = Some d0"
      by (simp add: key)
    then show "filter (\<lambda>c. document_id c = Str ''Unknown'') (extract_sources docs) = [source_of d0]"
      by (rule sources_for_identifier)
  }
  {
    assume a: "list_all (\<lambda>d. metadata d ''document_id'' \<noteq> Some (Str ''Unknown'')) docs
        \<and> find (\<lambda>d. metadata d ''document_id'' = None) docs = Some d1"
    then have "find (\<lambda>d. doc_id_of d = Str ''Unknown'') docs
             = find (\<lambda>d. metadata d ''document_id'' = None) docs"
      by (intro find_cong)
         (auto simp: list_all_iff doc_id_of_def dict_get_def split: option.splits)
    with a have "find (\<lambda>d. doc_id_of d = Str ''Unknown'') docs = Some d1"
      by simp
    then show "filter (\<lambda>c. document_id c = Str ''Unknown'') (extract_sources docs) = [source_of d1]"
      by (rule sources_for_identifier)
  }
qed

theorem unknown_chunks_collapse_witness:
  "metadata doc_unlabelled_1 ''document_id'' = None
   \<and> find (\<lambda>d. metadata d ''document_id'' = None
               \<or> metadata d ''document_id'' = Some (Str ''Unknown''))
        [doc_A, doc_unlabelled_1, doc_B, doc_unlabelled_2] = Some doc_unlabelled_1
   \<and> list_all (\<lambda>d. metadata d ''document_id'' \<noteq> Some (Str ''Unknown''))
        [doc_A, doc_unlabelled_1, doc_B, doc_unlabelled_2]
   \<and> find (\<lambda>d. metadata d ''document_id'' = None)
        [doc_A, doc_unlabelled_1, doc_B, doc_unlabelled_2] = Some doc_unlabelled_1
   \<and> filter (\<lambda>c. document_id c = Str ''Unknown'')
        (extract_sources [doc_A, doc_unlabelled_1, doc_B, doc_unlabelled_2])
       = [\<lparr> document_id = Str ''Unknown'', title = Str ''Handbook'',
            doc_type = Str ''Document'', filename = Str ''Unknown'' \<rparr>]"
proof -
  have m: "metadata doc_unlabelled_1 ''document_id'' = None"
          "metadata doc_unlabelled_2 ''document_id'' = None"
          "metadata doc_A ''document_id'' = Some (Str ''HR-001'')"
          "metadata doc_B ''document_id'' = Some (Str ''HR-002'')"
    by (simp_all add: doc_unlabelled_1_def doc_unlabelled_2_def doc_A_def doc_B_def)
  have s: "source_of doc_unlabelled_1 =
             \<lparr> document_id = Str ''Unknown'', title = Str ''Handbook'',
               doc_type = Str ''Document'', filename = Str ''Unknown'' \<rparr>"
    by (simp add: source_of_def dict_get_def doc_unlabelled_1_def)
  show ?thesis
    using m s
      unknown_chunks_collapse
        [of doc_unlabelled_1 "[doc_A, doc_unlabelled_1, doc_B, doc_unlabelled_2]"
            doc_unlabelled_1 doc_unlabelled_1]
    by simp
qed

text \<open>
  C10 as stated fails when a chunk named \<^verbatim>\<open>Unknown\<close> outright comes first: the
  single entry then carries that chunk's title, not the title of the first chunk that
  lacks an identifier.
\<close>

theorem unknown_entry_not_from_first_unlabelled_chunk:
  "metadata doc_unlabelled_1 ''document_id'' = None
   \<and> metadata doc_unlabelled_2 ''document_id'' = None
   \<and> title (source_of doc_unlabelled_1) = Str ''Handbook''
   \<and> extract_sources [doc_named_unknown, doc_unlabelled_1, doc_unlabelled_2] =
       [\<lparr> document_id = Str ''Unknown'', title = Str ''Draft'',
          doc_type = Str ''Document'', filename = Str ''Unknown'' \<rparr>]"
  by (simp add: extract_sources_def source_of_def dict_get_def Let_def doc_named_unknown_def
        doc_unlabelled_1_def doc_unlabelled_2_def)

text \<open>
  C1, amended. SOP agent: when retrieval returns no chunk, \<open>query\<close> returns the fixed
  \<^verbatim>\<open>No relevant SOP information found for: <question>\<close> with no sources and chunk count
  0, and the only outside call made is the similarity search (the chat model is not
  invoked); when retrieval returns chunks and the chat model answers, it returns that
  answer, the de-duplicated sources and the number of retrieved chunks, after one call
  to the chat model. HC agent: \<open>query\<close> has no such shortcut; its one outside call is the
  invocation of the retrieval chain, whatever the chain retrieves, and when the chain
  returns it passes on the chain's text, one source per document the chain returned and
  their number, also when that number is 0.
\<close>

theorem query_results_by_agent:
  "(similarity_search_with_score e (sop_vectorstore a) q SOP_TOP_K = Inr [] \<longrightarrow>
      SOPAgent_query e a q s =
        (Inr \<lparr> answer = ''No relevant SOP information found for: '' @ q,
               sources = [], chunks = 0 \<rparr>,
         log (SimilaritySearch q SOP_TOP_K) s))
   \<and> (similarity_search_with_score e (sop_vectorstore a) q SOP_TOP_K = Inr dws \<and> dws \<noteq> []
       \<and> llm_invoke e
            [SystemMessage (SOP_SYSTEM_PROMPT e),
             HumanMessage (SOP_RESPONSE_TEMPLATE_format (format_context (map fst dws)) q)]
           = Inr ans \<longrightarrow>
      SOPAgent_query e a q s =
        (Inr \<lparr> answer = ans, sources = extract_sources (map fst dws), chunks = length dws \<rparr>,
         log (LLMInvoke
                [SystemMessage (SOP_SYSTEM_PROMPT e),
                 HumanMessage (SOP_RESPONSE_TEMPLATE_format (format_context (map fst dws)) q)])
           (log (SimilaritySearch q SOP_TOP_K) s)))
   \<and> (qa_chain hc = Some chain
       \<and> qa_chain_invoke e (chain_vectorstore chain) (chain_k chain) q = Inr (result, rdocs) \<longrightarrow>
      HCAgent_query e hc q s =
        (Inr \<lparr> answer = result, sources = map hc_source_of rdocs, chunks = length rdocs \<rparr>,
         log (ChainInvoke q) s))
   \<and> (qa_chain hc = Some chain \<longrightarrow>
        new_events s (snd (HCAgent_query e hc q s)) = [ChainInvoke q])"
proof (intro conjI impI)
  assume "similarity_search_with_score e (sop_vectorstore a) q SOP_TOP_K = Inr []"
  then show "SOPAgent_query e a q s =
        (Inr \<lparr> answer = ''No relevant SOP information found for: '' @ q,
               sources = [], chunks = 0 \<rparr>,
         log (SimilaritySearch q SOP_TOP_K) s)"
    by (simp add: SOPAgent_query_def)
next
  assume "similarity_search_with_score e (sop_vectorstore a) q SOP_TOP_K = Inr dws \<and> dws \<noteq> []
       \<and> llm_invoke e
            [SystemMessage (SOP_SYSTEM_PROMPT e),
             HumanMessage (SOP_RESPONSE_TEMPLATE_format (format_context (map fst dws)) q)]
           = Inr ans"
  then show "SOPAgent_query e a q s =
        (Inr \<lparr> answer = ans, sources = extract_sources (map fst dws), chunks = length dws \<rparr>,
         log (LLMInvoke
                [SystemMessage (SOP_SYSTEM_PROMPT e),
                 HumanMessage (SOP_RESPONSE_TEMPLATE_format (format_context (map fst dws)) q)])
           (log (SimilaritySearch q SOP_TOP_K) s))"
    by (simp add: SOPAgent_query_def SOPAgent_generate_answer_def Let_def)
next
  assume "qa_chain hc = Some chain
       \<and> qa_chain_invoke e (chain_vectorstore chain) (chain_k chain) q = Inr (result, rdocs)"
  then show "HCAgent_query e hc q s =
        (Inr \<lparr> answer = result, sources = map hc_source_of rdocs, chunks = length rdocs \<rparr>,
         log (ChainInvoke q) s)"
    by (simp add: HCAgent_query_def Let_def)
next
  assume "qa_chain hc = Some chain"
  then show "new_events s (snd (HCAgent_query e hc q s)) = [ChainInvoke q]"
    by (simp add: HCAgent_query_def new_events_def log_def Let_def split: sum.splits prod.splits)
qed

theorem query_results_by_agent_witness:
  "SOPAgent_query env0 \<lparr> sop_vectorstore = FAISS [] \<rparr> ''What is the capping torque?'' state0 =
     (Inr \<lparr> answer = ''No relevant SOP information found for: What is the capping torque?'',
            sources = [], chunks = 0 \<rparr>,
      log (SimilaritySearch ''What is the capping torque?'' SOP_TOP_K) state0)
   \<and> fst (SOPAgent_query env0 \<lparr> sop_vectorstore = FAISS [doc_A, doc_A2] \<rparr>
             ''How long is the notice?'' state0) =
       Inr \<lparr> answer = ''generated answer'',
             sources = [\<lparr> document_id = Str ''HR-001'', title = Str ''Exit'',
                          doc_type = Str ''Document'', filename = Str ''Unknown'' \<rparr>],
             chunks = 2 \<rparr>
   \<and> fst (HCAgent_query env0 (ready_hc_agent [doc_A]) ''How long is the notice?'' state0) =
       Inr \<lparr> answer = ''generated answer'',
             sources = [\<lparr> document_id = Str ''HR-001'', title = Str ''Exit'',
                          doc_type = Str ''Document'', filename = Str ''Unknown'',
                          content = ''Notice period is 30 days.'' \<rparr>],
             chunks = 1 \<rparr>
   \<and> new_events state0
        (snd (HCAgent_query env0 (ready_hc_agent [doc_A]) ''How long is the notice?'' state0))
       = [ChainInvoke ''How long is the notice?'']"
proof -
  have h1: "similarity_search_with_score env0 (sop_vectorstore \<lparr> sop_vectorstore = FAISS [] \<rparr>)
              ''What is the capping torque?'' SOP_TOP_K = Inr []"
    by (simp add: env0_def)
  have h2: "similarity_search_with_score env0
              (sop_vectorstore \<lparr> sop_vectorstore = FAISS [doc_A, doc_A2] \<rparr>)
              ''How long is the notice?'' SOP_TOP_K = Inr [(doc_A, 0), (doc_A2, 0)]
            \<and> [(doc_A, 0::real), (doc_A2, 0)] \<noteq> []
            \<and> llm_invoke env0
                 [SystemMessage (SOP_SYSTEM_PROMPT env0),
                  HumanMessage (SOP_RESPONSE_TEMPLATE_format
                     (format_context (map fst [(doc_A, 0::real), (doc_A2, 0)]))
                     ''How long is the notice?'')]
                = Inr ''generated answer''"
    by (simp add: env0_def SOP_TOP_K_def)
  have h3: "qa_chain (ready_hc_agent [doc_A])
              = Some \<lparr> chain_vectorstore = FAISS [doc_A], chain_k = HC_TOP_K \<rparr>
            \<and> qa_chain_invoke env0
                 (chain_vectorstore \<lparr> chain_vectorstore = FAISS [doc_A], chain_k = HC_TOP_K \<rparr>)
                 (chain_k \<lparr> chain_vectorstore = FAISS [doc_A], chain_k = HC_TOP_K \<rparr>)
                 ''How long is the notice?'' = Inr (''generated answer'', [doc_A])"
    by (simp add: ready_hc_agent_def env0_def HC_TOP_K_def)
  have c1: "SOPAgent_query env0 \<lparr> sop_vectorstore = FAISS [] \<rparr> ''What is the capping torque?''
              state0 =
            (Inr \<lparr> answer = ''No relevant SOP information found for: ''
                               @ ''What is the capping torque?'',
                   sources = [], chunks = 0 \<rparr>,
             log (SimilaritySearch ''What is the capping torque?'' SOP_TOP_K) state0)"
    using query_results_by_agent [THEN conjunct1] h1 by (rule mp)
  have c2: "SOPAgent_query env0 \<lparr> sop_vectorstore = FAISS [doc_A, doc_A2] \<rparr>
              ''How long is the notice?'' state0 =
            (Inr \<lparr> answer = ''generated answer'',
                   sources = extract_sources (map fst [(doc_A, 0::real), (doc_A2, 0)]),
                   chunks = length [(doc_A, 0::real), (doc_A2, 0)] \<rparr>,
             log (LLMInvoke
                [SystemMessage (SOP_SYSTEM_PROMPT env0),
                 HumanMessage (SOP_RESPONSE_TEMPLATE_format
                    (format_context (map fst [(doc_A, 0::real), (doc_A2, 0)]))
                    ''How long is the notice?'')])
               (log (SimilaritySearch ''How long is the notice?'' SOP_TOP_K) state0))"
    using query_results_by_agent [THEN conjunct2, THEN conjunct1] h2 by (rule mp)
  have c3: "HCAgent_query env0 (ready_hc_agent [doc_A]) ''How long is the notice?'' state0 =
            (Inr \<lparr> answer = ''generated answer'', sources = map hc_source_of [doc_A],
                   chunks = length [doc_A] \<rparr>,
             log (ChainInvoke ''How long is the notice?'') state0)"
    using query_results_by_agent [THEN conjunct2, THEN conjunct2, THEN conjunct1] h3
    by (rule mp)
  have c4: "new_events state0
              (snd (HCAgent_query env0 (ready_hc_agent [doc_A]) ''How long is the notice?''
                      state0))
            = [ChainInvoke ''How long is the notice?'']"
    using query_results_by_agent [THEN conjunct2, THEN conjunct2, THEN conjunct2]
      h3 [THEN conjunct1]
    by (rule mp)
  have e: "extract_sources [doc_A, doc_A2] =
             [\<lparr> document_id = Str ''HR-001'', title = Str ''Exit'',
                doc_type = Str ''Document'', filename = Str ''Unknown'' \<rparr>]"
    by (simp add: extract_sources_def source_of_def dict_get_def Let_def doc_A_def doc_A2_def)
  have h: "hc_source_of doc_A =
             \<lparr> document_id = Str ''HR-001'', title = Str ''Exit'', doc_type = Str ''Document'',
               filename = Str ''Unknown'', content = ''Notice period is 30 days.'' \<rparr>"
    by (simp add: hc_source_of_def dict_get_def doc_A_def)
  show ?thesis
    using c4 by (simp add: c1 c2 c3 e h)
qed

text \<open>
  C1 as stated fails for the HC agent: on an index without chunks nothing is retrieved,
  and the chain is invoked all the same; the answer is the text the chain returned.
\<close>

theorem hc_query_no_short_circuit:
  "qa_chain_invoke env0 (FAISS []) HC_TOP_K ''What is the dress code?''
     = Inr (''generated answer'', [])
   \<and> HCAgent_query env0 (ready_hc_agent []) ''What is the dress code?'' state0 =
       (Inr \<lparr> answer = ''generated answer'', sources = [], chunks = 0 \<rparr>,
        log (ChainInvoke ''What is the dress code?'') state0)
   \<and> new_events state0
        (snd (HCAgent_query env0 (ready_hc_agent []) ''What is the dress code?'' state0))
       = [ChainInvoke ''What is the dress code?'']"
  by (simp add: HCAgent_query_def ready_hc_agent_def env0_def new_events_def log_def state0_def)

section \<open>Loading a persisted index\<close>

text \<open>
  The two agents test the path before they call the library; the ingestor's
  \<open>load_vectorstore\<close> hands the path to the library as it is, so its outcome is the
  library's outcome.
\<close>

lemma pathlib_str_HC_VECTORSTORE_PATH: "pathlib_str HC_VECTORSTORE_PATH = HC_VECTORSTORE_PATH"
  by (simp add: pathlib_str_def pathlib_root_def pathlib_parts_def HC_VECTORSTORE_PATH_def)

lemma pathlib_str_SOP_VECTORSTORE_PATH: "pathlib_str SOP_VECTORSTORE_PATH = SOP_VECTORSTORE_PATH"
  by (simp add: pathlib_str_def pathlib_root_def pathlib_parts_def SOP_VECTORSTORE_PATH_def)

text \<open>The normal form drops empty components, \<^verbatim>\<open>.\<close> and a trailing slash.\<close>

lemma pathlib_str_example:
  "pathlib_str ''./data//missing_index/'' = ''data/missing_index''
   \<and> pathlib_name ''./docs//a.md'' = ''a.md''
   \<and> pathlib_str ''//a//b'' = ''//a/b'' \<and> pathlib_str ''///a'' = ''/a''
   \<and> pathlib_str ''./'' = ''.''"
  by (simp add: pathlib_str_def pathlib_name_def pathlib_root_def pathlib_parts_def)

lemma hc_agent_load_missing_path:
  "\<not> path_exists s (pathlib_str (hc_vectorstore_path a)) \<Longrightarrow>
   HCAgent_load_vectorstore e a s =
     (Inl (FileNotFoundError
            (''HC vector store not found at '' @ pathlib_str (hc_vectorstore_path a)
               @ newline # ''Please upload and process HR documents first'')), a, s)"
  by (simp add: HCAgent_load_vectorstore_def Let_def)

lemma sop_agent_load_missing_path:
  "\<not> path_exists s SOP_VECTORSTORE_PATH \<Longrightarrow>
   SOPAgent_init e s =
     (Inl (FileNotFoundError
            (''SOP vector store not found at '' @ SOP_VECTORSTORE_PATH
               @ newline # ''Please run: python ingest_sop.py'')), s)"
  by (simp add: SOPAgent_init_def SOPAgent_load_vectorstore_def pathlib_str_SOP_VECTORSTORE_PATH)

lemma ingestor_load_is_library_call:
  "fst (DocumentIngestor_load_vectorstore e ing lp s) =
     load_local e (vectorstores s) (case lp of None \<Rightarrow> ing_vectorstore_path ing | Some p \<Rightarrow> p)"
  by (simp add: DocumentIngestor_load_vectorstore_def Let_def split: sum.splits)

text \<open>
  C6. On a path that is not on disk the HC agent's loader raises \<^verbatim>\<open>FileNotFoundError\<close>,
  while \<^verbatim>\<open>DocumentIngestor.load_vectorstore\<close> on the same path and state fails with the
  error the library raised (here the index reader's runtime error), not with
  \<^verbatim>\<open>FileNotFoundError\<close>.
\<close>

theorem ingestor_load_missing_path_raises_library_error:
  "\<not> path_exists state0 ''data/vectorstore/missing_index''
   \<and> fst (DocumentIngestor_load_vectorstore env0 (DocumentIngestor_init ''HC'')
            (Some ''data/vectorstore/missing_index'') state0)
       = Inl (LibraryError ''RuntimeError: could not open index.faiss'')
   \<and> fst (HCAgent_load_vectorstore env0 (HCAgent_init (Some ''data/vectorstore/missing_index''))
            state0)
       = Inl (FileNotFoundError
               (''HC vector store not found at data/vectorstore/missing_index''
                  @ newline # ''Please upload and process HR documents first''))"
  by (simp add: DocumentIngestor_load_vectorstore_def HCAgent_load_vectorstore_def HCAgent_init_def
        pathlib_str_def pathlib_root_def pathlib_parts_def
        path_exists_def domIff state0_def env0_def Let_def)

section \<open>Uploads: what is written, deleted and swapped\<close>


lemma load_document_hc_agent:
  "hc_agent (snd (load_document e fp s)) = hc_agent s"
  by (simp add: load_document_def log_def Let_def split: sum.splits)


text \<open>The four ways \<open>process_document\<close> can end, with the state each leaves.\<close>

lemma process_document_cases:
  "process_document e ing fp (Some sp) s = (r, ing', s') \<Longrightarrow>
   (\<exists>x s1. load_document e fp s = (Inl x, s1) \<and> r = Inl x \<and> s' = s1)
   \<or> (\<exists>docs s1 x. load_document e fp s = (Inr docs, s1)
         \<and> from_documents e (chunk_documents e ing docs) = Inl x \<and> r = Inl x
         \<and> s' = log (FromDocuments (length (chunk_documents e ing docs))) s1)
   \<or> (\<exists>docs s1 v x. load_document e fp s = (Inr docs, s1)
         \<and> from_documents e (chunk_documents e ing docs) = Inr v
         \<and> save_local_fault e sp v = Some x \<and> r = Inl x
         \<and> s' = log (SaveLocal sp) (log (FromDocuments (length (chunk_documents e ing docs))) s1))
   \<or> (\<exists>docs s1 v. load_document e fp s = (Inr docs, s1)
         \<and> from_documents e (chunk_documents e ing docs) = Inr v
         \<and> save_local_fault e sp v = None \<and> r = Inr (length (chunk_documents e ing docs))
         \<and> s' = (log (SaveLocal sp) (log (FromDocuments (length (chunk_documents e ing docs))) s1))
                  \<lparr> vectorstores := (vectorstores s1)(sp \<mapsto> v) \<rparr>)"
  by (auto simp: process_document_def create_vectorstore_def save_vectorstore_def Let_def log_def
           split: sum.splits prod.splits option.splits)


lemma process_document_failure_keeps_agent:
  "process_document e ing fp (Some sp) s = (Inl x, ing', s') \<Longrightarrow> hc_agent s' = hc_agent s"
  using load_document_hc_agent [of e fp s]
  by (auto dest!: process_document_cases simp: log_def)









lemmas upload_defs =
  upload_hc_document_def upload_try_def process_document_def load_document_def
  create_vectorstore_def save_vectorstore_def chunk_documents_def initialize_def
  HCAgent_load_vectorstore_def create_qa_chain_def HCAgent_init_def DocumentIngestor_init_def
  pathlib_str_def pathlib_root_def pathlib_parts_def path_join_def endswith_def splitext_ext_def basename_def lower_def lower_char_def
  truthy_def log_def path_exists_def domIff digit_char_def new_events_def one_document_def
  HC_UPLOAD_DIR_def HC_VECTORSTORE_PATH_def HC_CHUNK_SIZE_def HC_CHUNK_OVERLAP_def
  HC_separators_def HC_TOP_K_def

lemmas sample_defs =
  env0_def env_load_fails_def state0_def ready_state_def ready_hc_agent_def policy_pdf_def
  doc_A_def



section \<open>A rebuild that fails\<close>

text \<open>
  A failure while the upload is written, loaded, chunked, embedded or persisted leaves the
  module-level HC agent as it was.
\<close>

lemma upload_write_failure_keeps_state:
  "open_write_fault e (path_join HC_UPLOAD_DIR (upload_filename file)) = Some x \<Longrightarrow>
   hc_agent (snd (upload_hc_document e file s)) = hc_agent s
   \<and> vectorstores (snd (upload_hc_document e file s)) = vectorstores s"
  by (simp add: upload_hc_document_def upload_try_def Let_def log_def)

lemma upload_failure_keeps_agent:
  assumes "process_document e (DocumentIngestor_init ''HC'')
             (path_join HC_UPLOAD_DIR (upload_filename file)) (Some HC_VECTORSTORE_PATH)
             ((log (OpenWrite (path_join HC_UPLOAD_DIR (upload_filename file))) s)
                \<lparr> files := (files s)(path_join HC_UPLOAD_DIR (upload_filename file)
                                        \<mapsto> upload_bytes file) \<rparr>)
           = (Inl x, ing', s')"
  shows "hc_agent (snd (upload_hc_document e file s)) = hc_agent s"
  using assms process_document_failure_keeps_agent [OF assms]
  by (auto simp: upload_hc_document_def upload_try_def Let_def log_def split: option.splits)

text \<open>
  A failure of the reload inside \<open>initialize\<close>, after the new index was persisted, leaves
  the module-level agent bound to the new, uninitialized agent object.
\<close>

lemma upload_swap_failure:
  assumes "endswith (upload_filename file) ''.pdf'' \<or> endswith (upload_filename file) ''.docx''
             \<or> endswith (upload_filename file) ''.doc''"
      and "truthy (getenv e ''AZURE_OPENAI_ENDPOINT'')"
      and "open_write_fault e (path_join HC_UPLOAD_DIR (upload_filename file)) = None"
      and "process_document e (DocumentIngestor_init ''HC'')
             (path_join HC_UPLOAD_DIR (upload_filename file)) (Some HC_VECTORSTORE_PATH)
             ((log (OpenWrite (path_join HC_UPLOAD_DIR (upload_filename file))) s)
                \<lparr> files := (files s)(path_join HC_UPLOAD_DIR (upload_filename file)
                                        \<mapsto> upload_bytes file) \<rparr>)
           = (Inr n, ing', s3)"
      and "load_local e (vectorstores s3) HC_VECTORSTORE_PATH = Inl x"
  shows "upload_hc_document e file s =
           (Inl (HTTPException 500 (str_exn x)),
            (log (LoadLocal HC_VECTORSTORE_PATH) s3)\<lparr> hc_agent := Some (HCAgent_init None) \<rparr>)"
proof -
  have ex: "path_exists s3 HC_VECTORSTORE_PATH"
    using process_document_cases [OF assms(4)] by (auto simp: path_exists_def domIff log_def)
  show ?thesis
    using assms ex
    by (auto simp: upload_hc_document_def upload_try_def initialize_def
          HCAgent_load_vectorstore_def HCAgent_init_def pathlib_str_HC_VECTORSTORE_PATH
          path_exists_def domIff log_def Let_def)
qed

text \<open>
  C5. The HC agent is ready and answers a question. An upload then gets as far as
  persisting the new index, and the reload of that index in \<open>initialize\<close> fails. The
  endpoint reports status 500, the module-level agent is now the new object without
  index and chain, and the same question is refused with
  \<^verbatim>\<open>HC Agent not initialized\<close>: the prior ready agent is no longer queryable.
\<close>

theorem failed_swap_replaces_ready_agent:
  "fst (ask_hc_question env_load_fails ''How long is the notice?'' ready_state) =
     Inr \<lparr> resp_answer = ''generated answer'',
           resp_sources =
             Some [\<lparr> document_id = Str ''HR-001'', title = Str ''Exit'',
                     doc_type = Str ''Document'', filename = Str ''Unknown'',
                     content = ''Notice period is 30 days.'' \<rparr>],
           resp_chunks = Some 1, resp_agent = ''Human Capital Assistant'' \<rparr>
   \<and> fst (upload_hc_document env_load_fails policy_pdf ready_state) =
       Inl (HTTPException 500 ''index file is corrupt'')
   \<and> hc_agent (snd (upload_hc_document env_load_fails policy_pdf ready_state)) =
       Some \<lparr> hc_vectorstore_path = HC_VECTORSTORE_PATH, hc_vectorstore = None,
              hc_retriever = None, qa_chain = None \<rparr>
   \<and> fst (ask_hc_question env_load_fails ''How long is the notice?''
            (snd (upload_hc_document env_load_fails policy_pdf ready_state))) =
       Inl (HTTPException 500 ''HC Agent not initialized. Call initialize() first.'')"
  by (simp add: ask_hc_question_def HCAgent_query_def hc_source_of_def dict_get_def
        upload_defs sample_defs Let_def)

section \<open>Start-up\<close>

text \<open>
  Without a persisted index the service starts with the agents as they were (none); with
  an HC index on disk, start-up produces the ready agent used in the examples above.
\<close>

lemma startup_without_indexes:
  "\<not> path_exists s SOP_VECTORSTORE_PATH \<Longrightarrow> \<not> path_exists s HC_VECTORSTORE_PATH \<Longrightarrow>
   startup_event e s = s"
  by (simp add: startup_event_def)

lemma startup_reaches_ready_state:
  "startup_event env0 (state0\<lparr> vectorstores := [HC_VECTORSTORE_PATH \<mapsto> FAISS [doc_A]] \<rparr>)
     = ready_state\<lparr> trace := [LoadLocal HC_VECTORSTORE_PATH] \<rparr>"
  by (simp add: startup_event_def initialize_def HCAgent_load_vectorstore_def
        SOPAgent_init_def SOPAgent_load_vectorstore_def
        pathlib_str_def pathlib_root_def pathlib_parts_def Let_def
        create_qa_chain_def HCAgent_init_def path_exists_def domIff log_def env0_def state0_def
        ready_state_def ready_hc_agent_def HC_VECTORSTORE_PATH_def SOP_VECTORSTORE_PATH_def
        HC_TOP_K_def)

end
